theory Spec2Isabelle
  imports Main "HOL-Library.AList"
begin

section \<open>Values of the decoded stream message\<close>

text \<open>
  The handler \<^verbatim>\<open>eventSource.onmessage\<close> of \<^verbatim>\<open>App\<close> reads the fields of
  \<^verbatim>\<open>data = JSON.parse(event.data)\<close>, an untyped object. A field is modelled as a
  scalar JavaScript value: \<open>JUndefined\<close> for an absent field, \<open>JNull\<close>, a boolean, a
  number (a mathematical integer, which agrees with the source for the safe integers of
  JavaScript) or a string. \<open>JNaN\<close> is the result of an addition that has no number;
  no parsed message holds it. Nested objects, arrays and fractional numbers are outside
  the model.
\<close>

datatype jsval = JUndefined | JNull | JBool bool | JNum int | JStr string | JNaN

text \<open>JavaScript truthiness, as used by \<^verbatim>\<open>if (x)\<close>, \<^verbatim>\<open>x && y\<close> and \<^verbatim>\<open>x || y\<close>.\<close>

fun truthy :: "jsval \<Rightarrow> bool" where
  "truthy JUndefined = False"
| "truthy JNull = False"
| "truthy (JBool b) = b"
| "truthy (JNum n) = (n \<noteq> 0)"
| "truthy (JStr s) = (s \<noteq> [])"
| "truthy JNaN = False"

text \<open>\<^verbatim>\<open>a || b\<close>: the left operand when it is truthy, the right one otherwise.\<close>

definition js_or :: "jsval \<Rightarrow> jsval \<Rightarrow> jsval" where
  "js_or a b = (if truthy a then a else b)"

text \<open>Decimal digits of a natural number, for the string conversion of numbers.\<close>

definition digit :: "nat \<Rightarrow> char" where
  "digit n = ''0123456789'' ! n"

fun digits :: "nat \<Rightarrow> string" where
  "digits n = (if n < 10 then [digit n] else digits (n div 10) @ [digit (n mod 10)])"

declare digits.simps [simp del]

text \<open>
  The string conversion of a template literal \<^verbatim>\<open>`${x}`\<close> and of a computed property
  key \<^verbatim>\<open>{[x]: v}\<close>.
\<close>

fun toString :: "jsval \<Rightarrow> string" where
  "toString JUndefined = ''undefined''"
| "toString JNull = ''null''"
| "toString (JBool b) = (if b then ''true'' else ''false'')"
| "toString (JNum n) = (if n < 0 then ''-'' @ digits (nat (- n)) else digits (nat n))"
| "toString (JStr s) = s"
| "toString JNaN = ''NaN''"

text \<open>
  The numeric conversion of the operands of \<^verbatim>\<open>+\<close> when neither is a string;
  \<open>None\<close> stands for NaN.
\<close>

fun toNumber :: "jsval \<Rightarrow> int option" where
  "toNumber JUndefined = None"
| "toNumber JNull = Some 0"
| "toNumber (JBool b) = Some (if b then 1 else 0)"
| "toNumber (JNum n) = Some n"
| "toNumber (JStr s) = None"
| "toNumber JNaN = None"

fun isString :: "jsval \<Rightarrow> bool" where
  "isString (JStr s) = True"
| "isString _ = False"

text \<open>\<^verbatim>\<open>a + b\<close>: concatenation when an operand is a string, numeric addition otherwise.\<close>

definition js_add :: "jsval \<Rightarrow> jsval \<Rightarrow> jsval" where
  "js_add a b =
     (if isString a \<or> isString b then JStr (toString a @ toString b)
      else (case (toNumber a, toNumber b) of
              (Some x, Some y) \<Rightarrow> JNum (x + y)
            | _ \<Rightarrow> JNaN))"

section \<open>The data model of the component\<close>

text \<open>The fields of \<^verbatim>\<open>data\<close> that the handler reads (\<^verbatim>\<open>data.type\<close>, \<^verbatim>\<open>data.step\<close>, ...).\<close>

record event_data =
  data_type :: jsval
  data_step :: jsval
  data_query :: jsval
  data_query_number :: jsval
  data_category :: jsval
  data_message :: jsval
  data_company :: jsval
  data_total :: jsval
  data_enriched :: jsval
  data_total_docs :: jsval
  data_content_length :: jsval
  data_chunk :: jsval
  data_report :: jsval
  data_error :: jsval

text \<open>A message object none of whose fields is present.\<close>

definition no_fields :: event_data where
  "no_fields = \<lparr> data_type = JUndefined, data_step = JUndefined, data_query = JUndefined,
     data_query_number = JUndefined, data_category = JUndefined, data_message = JUndefined,
     data_company = JUndefined, data_total = JUndefined, data_enriched = JUndefined,
     data_total_docs = JUndefined, data_content_length = JUndefined, data_chunk = JUndefined,
     data_report = JUndefined, data_error = JUndefined \<rparr>"

datatype phase = Search | Enrichment | Briefing | Complete

text \<open>
  The result of \<^verbatim>\<open>getStepName\<close>: a value of the message or a label of the table
  (\<open>Own\<close>), or the member of \<^verbatim>\<open>Object.prototype\<close> that the lookup
  \<^verbatim>\<open>stepMap[nodeName]\<close> finds along the prototype chain of the object literal
  (\<open>Inherited\<close>, with the member's name).
\<close>

datatype step_name = Own jsval | Inherited string

record researchStatus =
  step :: step_name
  message :: jsval

text \<open>\<^verbatim>\<open>ResearchOutput\<close>; the field \<open>report\<close> is \<^verbatim>\<open>details.report\<close>.\<close>

record researchOutput =
  summary :: string
  report :: jsval

record query =
  q_text :: jsval
  q_number :: jsval
  q_category :: jsval

record streamingQuery =
  sq_text :: jsval
  sq_number :: jsval
  sq_category :: jsval
  sq_isComplete :: bool

record counter =
  c_total :: jsval
  c_enriched :: jsval

text \<open>The ready state of the \<^verbatim>\<open>EventSource\<close> held by \<^verbatim>\<open>eventSourceRef\<close>.\<close>

datatype readyState = OPEN | CLOSED

text \<open>The callbacks that the component passes to \<^verbatim>\<open>setTimeout\<close>.\<close>

datatype callback = ResetState | CollapseQueries | CollapseEnrichment | CollapseBriefing

text \<open>
  The state of \<^verbatim>\<open>App\<close> that the stream handler and the reset write. An object
  used as a dictionary (\<^verbatim>\<open>streamingQueries\<close>, \<^verbatim>\<open>enrichmentCounts\<close>,
  \<^verbatim>\<open>briefingStatus\<close>) is the association list of its own properties, read through
  \<open>map_of\<close>; \<open>None\<close> is \<^verbatim>\<open>null\<close> or \<^verbatim>\<open>undefined\<close>. \<open>scheduled\<close> records every
  call of \<^verbatim>\<open>setTimeout\<close> with its delay in milliseconds, in call order, and
  \<open>scrollCalls\<close> counts the calls of \<^verbatim>\<open>window.scrollTo\<close>.
\<close>

record app_state =
  isResearching :: bool
  status :: "researchStatus option"
  output_state :: "researchOutput option"
  error :: jsval
  isComplete :: bool
  eventSourceRef :: "readyState option"
  currentPhase :: "phase option"
  isResetting :: bool
  queries :: "query list"
  streamingQueries :: "(string \<times> streamingQuery) list"
  isQueriesExpanded :: bool
  enrichmentCounts :: "(string \<times> counter) list option"
  briefingStatus :: "(string \<times> bool) list"
  isEnrichmentExpanded :: bool
  isBriefingExpanded :: bool
  hasScrolledToStatus :: bool
  isReportStreaming :: bool
  scheduled :: "(nat \<times> callback) list"
  scrollCalls :: nat

text \<open>The initial values of the \<^verbatim>\<open>useState\<close> and \<^verbatim>\<open>useRef\<close> hooks.\<close>

definition initialBriefingStatus :: "(string \<times> bool) list" where
  "initialBriefingStatus =
     [(''company'', False), (''industry'', False), (''financial'', False), (''news'', False)]"

definition initialState :: app_state where
  "initialState = \<lparr> isResearching = False, status = None, output_state = None, error = JNull,
     isComplete = False, eventSourceRef = None, currentPhase = None, isResetting = False,
     queries = [], streamingQueries = [], isQueriesExpanded = True, enrichmentCounts = None,
     briefingStatus = initialBriefingStatus, isEnrichmentExpanded = True,
     isBriefingExpanded = True, hasScrolledToStatus = False, isReportStreaming = False,
     scheduled = [], scrollCalls = 0 \<rparr>"

text \<open>
  What the handler reads outside the state: \<^verbatim>\<open>scrollToStatus\<close> is the closure of the
  render in which the stream was opened, so it sees the value that
  \<^verbatim>\<open>hasScrolledToStatus\<close> had then, and \<^verbatim>\<open>statusRef.current\<close> is set when the
  status box is mounted.
\<close>

record closure =
  hasScrolledToStatus_seen :: bool
  statusRef_current :: bool

section \<open>Reset and timers\<close>

definition setTimeout :: "callback \<Rightarrow> nat \<Rightarrow> app_state \<Rightarrow> app_state" where
  "setTimeout cb ms s = s\<lparr> scheduled := scheduled s @ [(ms, cb)] \<rparr>"




text \<open>
  The first two statements of \<^verbatim>\<open>streamResults\<close>: a new \<^verbatim>\<open>EventSource\<close> is stored
  in \<^verbatim>\<open>eventSourceRef\<close>.
\<close>

definition streamResults :: "app_state \<Rightarrow> app_state" where
  "streamResults s = s\<lparr> eventSourceRef := Some OPEN \<rparr>"

text \<open>\<^verbatim>\<open>eventSource.close()\<close> on the source that the reference holds.\<close>

definition closeEventSource :: "app_state \<Rightarrow> app_state" where
  "closeEventSource s = s\<lparr> eventSourceRef := map_option (\<lambda>_. CLOSED) (eventSourceRef s) \<rparr>"

definition scrollToStatus :: "closure \<Rightarrow> app_state \<Rightarrow> app_state" where
  "scrollToStatus cl s =
     (if \<not> hasScrolledToStatus_seen cl \<and> statusRef_current cl
      then s\<lparr> scrollCalls := scrollCalls s + 1, hasScrolledToStatus := True \<rparr>
      else s)"

section \<open>The stream handler\<close>

text \<open>The own keys of \<^verbatim>\<open>stepMap\<close>.\<close>

definition stepMap :: "(string \<times> string) list" where
  "stepMap =
     [(''grounding'', ''Search''), (''financial_analyst'', ''Search''),
      (''news_scanner'', ''Search''), (''industry_analyst'', ''Search''),
      (''company_analyst'', ''Search''), (''collector'', ''Search''),
      (''curator'', ''Enriching''), (''enricher'', ''Enriching''),
      (''briefing'', ''Briefing''), (''editor'', ''Finalizing'')]"

text \<open>
  The property names that an object literal inherits from \<^verbatim>\<open>Object.prototype\<close>;
  each of them is a function or an object, hence truthy.
\<close>

definition objectPrototypeNames :: "string list" where
  "objectPrototypeNames =
     [''constructor'', ''__defineGetter__'', ''__defineSetter__'', ''hasOwnProperty'',
      ''__lookupGetter__'', ''__lookupSetter__'', ''isPrototypeOf'',
      ''propertyIsEnumerable'', ''toString'', ''valueOf'', ''__proto__'',
      ''toLocaleString'']"

text \<open>\<^verbatim>\<open>getStepName\<close>: \<^verbatim>\<open>stepMap[nodeName] || nodeName\<close>.\<close>

definition getStepName :: "jsval \<Rightarrow> step_name" where
  "getStepName nodeName =
     (case map_of stepMap (toString nodeName) of
        Some label \<Rightarrow> Own (JStr label)
      | None \<Rightarrow>
          if toString nodeName \<in> set objectPrototypeNames
          then Inherited (toString nodeName)
          else Own nodeName)"

definition setStatus :: "step_name \<Rightarrow> jsval \<Rightarrow> app_state \<Rightarrow> app_state" where
  "setStatus st msg s = s\<lparr> status := Some \<lparr> step = st, message = msg \<rparr> \<rparr>"

text \<open>The first \<^verbatim>\<open>if\<close> of the handler: progress events of the backend.\<close>

definition onProgress :: "closure \<Rightarrow> event_data \<Rightarrow> app_state \<Rightarrow> app_state" where
  "onProgress cl d s =
     (let s1 = setStatus (getStepName (data_step d))
                 (JStr (''Processing '' @ toString (data_step d) @ ''...'')) s;
          s2 = (if data_step d \<in> set (map JStr [''grounding'', ''financial_analyst'',
                     ''news_scanner'', ''industry_analyst'', ''company_analyst'',
                     ''collector''])
                then s1\<lparr> currentPhase := Some Search \<rparr>
                else if data_step d \<in> set (map JStr [''curator'', ''enricher''])
                then s1\<lparr> currentPhase := Some Enrichment \<rparr>
                else if data_step d = JStr ''briefing''
                then s1\<lparr> currentPhase := Some Briefing \<rparr>
                else s1)
      in scrollToStatus cl s2)"

text \<open>The key \<^verbatim>\<open>`${data.category}_${data.query_number}`\<close> of a streaming query.\<close>

definition queryKey :: "event_data \<Rightarrow> string" where
  "queryKey d = toString (data_category d) @ ''_'' @ toString (data_query_number d)"

definition onQueryGenerating :: "event_data \<Rightarrow> app_state \<Rightarrow> app_state" where
  "onQueryGenerating d s =
     (let s1 = s\<lparr> currentPhase := Some Search \<rparr>;
          s2 = setStatus (Own (JStr ''Search''))
                 (JStr (''Query '' @ toString (data_query_number d) @ '': ''
                        @ toString (data_query d))) s1
      in s2\<lparr> streamingQueries :=
               AList.update (queryKey d)
                 \<lparr> sq_text = data_query d, sq_number = data_query_number d,
                   sq_category = data_category d, sq_isComplete = False \<rparr>
                 (streamingQueries s2) \<rparr>)"

definition onQueryGenerated :: "closure \<Rightarrow> event_data \<Rightarrow> app_state \<Rightarrow> app_state" where
  "onQueryGenerated cl d s =
     (let s1 = s\<lparr> currentPhase := Some Search \<rparr>;
          s2 = setStatus (Own (JStr ''Search''))
                 (JStr (''Generated: '' @ toString (data_query d))) s1;
          s3 = s2\<lparr> queries := queries s2 @
                 [\<lparr> q_text = data_query d, q_number = data_query_number d,
                    q_category = data_category d \<rparr>] \<rparr>;
          s4 = s3\<lparr> streamingQueries := AList.delete (queryKey d) (streamingQueries s3) \<rparr>
      in scrollToStatus cl s4)"

definition onResearchInit :: "event_data \<Rightarrow> app_state \<Rightarrow> app_state" where
  "onResearchInit d s =
     setStatus (Own (JStr ''Initializing''))
       (js_or (data_message d)
          (JStr (''Initiating research for '' @ toString (data_company d))))
       (s\<lparr> currentPhase := Some Search \<rparr>)"

definition onCrawlStart :: "event_data \<Rightarrow> app_state \<Rightarrow> app_state" where
  "onCrawlStart d s =
     setStatus (Own (JStr ''Website Crawl''))
       (js_or (data_message d) (JStr ''Crawling company website''))
       (s\<lparr> currentPhase := Some Search \<rparr>)"

definition onCuration :: "closure \<Rightarrow> event_data \<Rightarrow> app_state \<Rightarrow> app_state" where
  "onCuration cl d s =
     (let s1 = s\<lparr> currentPhase := Some Enrichment \<rparr>;
          s2 = setStatus (Own (JStr ''Curating data''))
                 (js_or (data_message d)
                    (JStr (''Curating '' @ toString (data_category d) @ '' documents''))) s1;
          s3 = (if truthy (data_category d)
                then s2\<lparr> enrichmentCounts := Some
                       (AList.update (toString (data_category d))
                          \<lparr> c_total = js_or (data_total d) (JNum 0), c_enriched = JNum 0 \<rparr>
                          (case enrichmentCounts s2 of None \<Rightarrow> [] | Some prev \<Rightarrow> prev)) \<rparr>
                else s2);
          s4 = setTimeout CollapseQueries 1000 s3
      in scrollToStatus cl s4)"

text \<open>
  In \<^verbatim>\<open>prev[category]?.total\<close> a missing entry reads as \<^verbatim>\<open>undefined\<close>; so does
  a member inherited from \<^verbatim>\<open>Object.prototype\<close>, none of which has a \<^verbatim>\<open>total\<close>.
\<close>

definition onEnrichment :: "event_data \<Rightarrow> app_state \<Rightarrow> app_state" where
  "onEnrichment d s =
     (let s1 = s\<lparr> currentPhase := Some Enrichment \<rparr>;
          s2 = setStatus (Own (JStr ''Enriching''))
                 (js_or (data_message d)
                    (JStr ''Enriching documents with additional content'')) s1
      in if truthy (data_category d) \<and> data_enriched d \<noteq> JUndefined
         then s2\<lparr> enrichmentCounts :=
                (case enrichmentCounts s2 of
                   None \<Rightarrow> None
                 | Some prev \<Rightarrow> Some
                     (AList.update (toString (data_category d))
                        \<lparr> c_total =
                            js_or (js_or
                              (case map_of prev (toString (data_category d)) of
                                 None \<Rightarrow> JUndefined
                               | Some c \<Rightarrow> c_total c)
                              (data_total d)) (JNum 0),
                          c_enriched = data_enriched d \<rparr>
                        prev)) \<rparr>
         else s2)"

definition onBriefingStart :: "closure \<Rightarrow> event_data \<Rightarrow> app_state \<Rightarrow> app_state" where
  "onBriefingStart cl d s =
     (let s1 = s\<lparr> currentPhase := Some Briefing \<rparr>;
          s2 = setStatus (Own (JStr ''Generating briefings''))
                 (JStr (''Creating '' @ toString (data_category d) @ '' briefing from ''
                        @ toString (data_total_docs d) @ '' documents'')) s1;
          s3 = setTimeout CollapseEnrichment 1000 s2
      in scrollToStatus cl s3)"

text \<open>
  The updater passed to \<^verbatim>\<open>setBriefingStatus\<close>; it calls \<^verbatim>\<open>setTimeout\<close> itself
  when every value of the new object is true.
\<close>

definition briefingUpdater :: "event_data \<Rightarrow> app_state \<Rightarrow> app_state" where
  "briefingUpdater d s =
     (let newBriefingStatus = AList.update (toString (data_category d)) True (briefingStatus s);
          allBriefingsComplete = list_all (\<lambda>kv. snd kv) newBriefingStatus;
          s1 = (if allBriefingsComplete then setTimeout CollapseBriefing 2000 s else s)
      in s1\<lparr> briefingStatus := newBriefingStatus \<rparr>)"

definition onBriefingComplete :: "event_data \<Rightarrow> app_state \<Rightarrow> app_state" where
  "onBriefingComplete d s =
     (let s1 = s\<lparr> currentPhase := Some Briefing \<rparr>;
          s2 = setStatus (Own (JStr ''Briefing complete''))
                 (JStr (toString (data_category d) @ '' briefing generated (''
                        @ toString (data_content_length d) @ '' characters)'')) s1
      in if truthy (data_category d) then briefingUpdater d s2 else s2)"

definition onReportCompilation :: "event_data \<Rightarrow> app_state \<Rightarrow> app_state" where
  "onReportCompilation d s =
     setStatus (Own (JStr ''Finalizing report''))
       (js_or (data_message d) (JStr ''Compiling final report''))
       (s\<lparr> currentPhase := Some Briefing \<rparr>)"

text \<open>The report text assembled so far: \<^verbatim>\<open>prev?.details?.report || ''\<close>.\<close>

definition currentReport :: "app_state \<Rightarrow> jsval" where
  "currentReport s =
     js_or (case output_state s of None \<Rightarrow> JUndefined | Some out \<Rightarrow> report out) (JStr '''')"

definition onReportChunk :: "event_data \<Rightarrow> app_state \<Rightarrow> app_state" where
  "onReportChunk d s =
     (let s1 = s\<lparr> isReportStreaming := True \<rparr>;
          s2 = s1\<lparr> output_state := Some \<lparr> summary = '''',
                      report = js_add (currentReport s1) (data_chunk d) \<rparr> \<rparr>
      in setStatus (Own (JStr ''Finalizing report'')) (JStr ''Generating final report...'') s2)"

definition onComplete :: "event_data \<Rightarrow> app_state \<Rightarrow> app_state" where
  "onComplete d s =
     (let s1 = s\<lparr> isReportStreaming := False \<rparr>;
          s2 = s1\<lparr> output_state := Some \<lparr> summary = '''', report = data_report d \<rparr> \<rparr>;
          s3 = setStatus (Own (JStr ''Complete'')) (JStr ''Research completed successfully'') s2;
          s4 = s3\<lparr> isComplete := True \<rparr>;
          s5 = s4\<lparr> isResearching := False \<rparr>
      in closeEventSource s5)"

definition onError :: "event_data \<Rightarrow> app_state \<Rightarrow> app_state" where
  "onError d s = closeEventSource (s\<lparr> error := data_error d, isResearching := False \<rparr>)"

text \<open>
  \<^verbatim>\<open>eventSource.onmessage\<close> for a decoded message object: the progress test, then
  the \<^verbatim>\<open>if\<close>/\<^verbatim>\<open>else if\<close> chain on \<^verbatim>\<open>data.type\<close>, in the order of the source.
  A payload that \<^verbatim>\<open>JSON.parse\<close> rejects is caught and logged before any setter runs,
  so it leaves the state as it is. Each state setter and updater takes effect once, in
  call order.
\<close>

definition onmessage :: "closure \<Rightarrow> app_state \<Rightarrow> event_data \<Rightarrow> app_state" where
  "onmessage cl s0 d =
     (let s = (if data_type d = JStr ''progress'' \<and> truthy (data_step d)
               then onProgress cl d s0 else s0)
      in if data_type d = JStr ''query_generating'' then onQueryGenerating d s
         else if data_type d = JStr ''query_generated'' then onQueryGenerated cl d s
         else if data_type d = JStr ''research_init'' then onResearchInit d s
         else if data_type d = JStr ''crawl_start'' then onCrawlStart d s
         else if data_type d = JStr ''curation'' then onCuration cl d s
         else if data_type d = JStr ''enrichment'' then onEnrichment d s
         else if data_type d = JStr ''briefing_start'' then onBriefingStart cl d s
         else if data_type d = JStr ''briefing_complete'' then onBriefingComplete d s
         else if data_type d = JStr ''report_compilation'' then onReportCompilation d s
         else if data_type d = JStr ''report_chunk'' \<and> truthy (data_chunk d)
         then onReportChunk d s
         else if data_type d = JStr ''complete'' \<and> truthy (data_report d)
         then onComplete d s
         else if data_type d = JStr ''error'' then onError d s
         else s)"

text \<open>The handler applied to the messages of a stream in arrival order.\<close>

definition processEvents :: "closure \<Rightarrow> app_state \<Rightarrow> event_data list \<Rightarrow> app_state" where
  "processEvents cl s ds = foldl (onmessage cl) s ds"

section \<open>Observations and concrete inputs\<close>

text \<open>The counter entry of a category: \<^verbatim>\<open>enrichmentCounts?.[k]\<close>.\<close>

definition counterOf :: "string \<Rightarrow> app_state \<Rightarrow> counter option" where
  "counterOf k s = (case enrichmentCounts s of None \<Rightarrow> None | Some m \<Rightarrow> map_of m k)"

text \<open>
  The render guards of the briefing panel and of the curation panel. The source
  comments them "show once briefing starts and keep visible" and "show once
  enrichment starts and keep visible".
\<close>

definition showsResearchBriefings :: "app_state \<Rightarrow> bool" where
  "showsResearchBriefings s =
     (currentPhase s = Some Briefing \<or> currentPhase s = Some Complete)"

definition showsCurationExtraction :: "app_state \<Rightarrow> bool" where
  "showsCurationExtraction s =
     ((currentPhase s = Some Enrichment \<or> currentPhase s = Some Briefing
       \<or> currentPhase s = Some Complete)
      \<and> enrichmentCounts s \<noteq> None)"

text \<open>How many finalized queries have the identity \<open>(category, number)\<close>.\<close>

definition finalizedCount :: "jsval \<Rightarrow> jsval \<Rightarrow> app_state \<Rightarrow> nat" where
  "finalizedCount c n s =
     length (filter (\<lambda>q. q_category q = c \<and> q_number q = n) (queries s))"

text \<open>How many times the collapse of the briefing section has been scheduled.\<close>

definition collapseBriefingScheduled :: "app_state \<Rightarrow> nat" where
  "collapseBriefingScheduled s = count_list (scheduled s) (2000, CollapseBriefing)"

text \<open>The values of \<^verbatim>\<open>data.type\<close> that the handler tests for.\<close>

definition recognizedKinds :: "string list" where
  "recognizedKinds =
     [''progress'', ''query_generating'', ''query_generated'', ''research_init'',
      ''crawl_start'', ''curation'', ''enrichment'', ''briefing_start'',
      ''briefing_complete'', ''report_compilation'', ''report_chunk'', ''complete'',
      ''error'']"

text \<open>A message that carries only its \<^verbatim>\<open>type\<close>.\<close>

definition ev :: "string \<Rightarrow> event_data" where
  "ev k = no_fields\<lparr> data_type := JStr k \<rparr>"

text \<open>A stream opened before any scroll, with the status box mounted.\<close>

definition cl0 :: closure where
  "cl0 = \<lparr> hasScrolledToStatus_seen = False, statusRef_current = True \<rparr>"

definition evCuration :: "string \<Rightarrow> int \<Rightarrow> event_data" where
  "evCuration c n = (ev ''curation'')\<lparr> data_category := JStr c, data_total := JNum n \<rparr>"

definition evEnrichment :: "string \<Rightarrow> int \<Rightarrow> event_data" where
  "evEnrichment c n = (ev ''enrichment'')\<lparr> data_category := JStr c, data_enriched := JNum n \<rparr>"

definition evBriefingComplete :: "string \<Rightarrow> event_data" where
  "evBriefingComplete c = (ev ''briefing_complete'')\<lparr> data_category := JStr c \<rparr>"

definition evQuery :: "string \<Rightarrow> string \<Rightarrow> int \<Rightarrow> string \<Rightarrow> event_data" where
  "evQuery k c n q =
     (ev k)\<lparr> data_category := JStr c, data_query_number := JNum n, data_query := JStr q \<rparr>"

definition evReportChunk :: "string \<Rightarrow> event_data" where
  "evReportChunk c = (ev ''report_chunk'')\<lparr> data_chunk := JStr c \<rparr>"

definition evComplete :: "string \<Rightarrow> event_data" where
  "evComplete r = (ev ''complete'')\<lparr> data_report := JStr r \<rparr>"

section \<open>Properties\<close>

lemmas handler_defs = onmessage_def onProgress_def onQueryGenerating_def onQueryGenerated_def
  onResearchInit_def onCrawlStart_def onCuration_def onEnrichment_def onBriefingStart_def
  onBriefingComplete_def briefingUpdater_def onReportCompilation_def onReportChunk_def
  onComplete_def onError_def setStatus_def setTimeout_def scrollToStatus_def
  closeEventSource_def queryKey_def currentReport_def js_or_def js_add_def getStepName_def
  Let_def

lemmas concrete_defs = ev_def no_fields_def cl0_def initialState_def initialBriefingStatus_def
  processEvents_def stepMap_def objectPrototypeNames_def digits.simps digit_def

lemma list_all_other_keys:
  "k \<notin> fst ` set al \<Longrightarrow> list_all (\<lambda>kv. fst kv = k \<or> snd kv) al = list_all snd al"
  by (induction al) auto

lemma list_all_update_True:
  "distinct (map fst al) \<Longrightarrow>
   list_all snd (AList.update k True al) = list_all (\<lambda>kv. fst kv = k \<or> snd kv) al"
proof (induction al)
  case Nil
  show ?case by simp
next
  case (Cons a al)
  show ?case
  proof (cases "fst a = k")
    case True
    with Cons.prems have "k \<notin> fst ` set al" by auto
    with True show ?thesis by (cases a) (simp add: list_all_other_keys)
  next
    case False
    with Cons show ?thesis by (cases a) simp
  qed
qed

lemma map_of_update_same: "map_of (AList.update k v al) k = Some v"
  by (simp add: update_conv')

lemma map_of_delete_same: "map_of (AList.delete k al) k = None"
  by (simp add: delete_conv')

subsection \<open>Phase\<close>

text \<open>
  C1: within one job the phase never moves backwards through search, enrichment,
  briefing, complete; after \<open>curation\<close>, then \<open>progress\<close> with step "briefing", then
  \<open>query_generated\<close>, the phase is \<open>briefing\<close>. The handler does not keep this: on
  that sequence the phase is \<open>briefing\<close> after the second message and \<open>search\<close> after
  the third, and the briefing and curation panels, shown after the second message, are
  no longer rendered after the third.
\<close>

theorem C1_phase_returns_to_search:
  "currentPhase (processEvents cl0 initialState
      [evCuration ''company'' 3,
       (ev ''progress'')\<lparr> data_step := JStr ''briefing'' \<rparr>]) = Some Briefing
   \<and> showsResearchBriefings (processEvents cl0 initialState
      [evCuration ''company'' 3,
       (ev ''progress'')\<lparr> data_step := JStr ''briefing'' \<rparr>])
   \<and> showsCurationExtraction (processEvents cl0 initialState
      [evCuration ''company'' 3,
       (ev ''progress'')\<lparr> data_step := JStr ''briefing'' \<rparr>])
   \<and> currentPhase (processEvents cl0 initialState
      [evCuration ''company'' 3,
       (ev ''progress'')\<lparr> data_step := JStr ''briefing'' \<rparr>,
       evQuery ''query_generated'' ''company'' 1 ''acme revenue'']) = Some Search
   \<and> \<not> showsResearchBriefings (processEvents cl0 initialState
      [evCuration ''company'' 3,
       (ev ''progress'')\<lparr> data_step := JStr ''briefing'' \<rparr>,
       evQuery ''query_generated'' ''company'' 1 ''acme revenue''])
   \<and> \<not> showsCurationExtraction (processEvents cl0 initialState
      [evCuration ''company'' 3,
       (ev ''progress'')\<lparr> data_step := JStr ''briefing'' \<rparr>,
       evQuery ''query_generated'' ''company'' 1 ''acme revenue''])"
  by (simp add: handler_defs concrete_defs evCuration_def evQuery_def
      showsResearchBriefings_def showsCurationExtraction_def)

subsection \<open>Queries\<close>

text \<open>
  C2, as stated: in every reachable state a query identity is in at most one of the
  streaming map and the finalized sequence, and it is appended exactly once. On the code,
  \<open>query_generating\<close> arriving after \<open>query_generated\<close> for the same identity puts
  it in both, and a repeated \<open>query_generated\<close> appends it a second time.
\<close>

theorem C2_identity_in_both:
  "finalizedCount (JStr ''company'') (JNum 1)
     (processEvents cl0 initialState
        [evQuery ''query_generated'' ''company'' 1 ''acme revenue'',
         evQuery ''query_generating'' ''company'' 1 ''acme'']) = 1
   \<and> map_of (streamingQueries
        (processEvents cl0 initialState
           [evQuery ''query_generated'' ''company'' 1 ''acme revenue'',
            evQuery ''query_generating'' ''company'' 1 ''acme''])) ''company_1''
      = Some \<lparr> sq_text = JStr ''acme'', sq_number = JNum 1, sq_category = JStr ''company'',
               sq_isComplete = False \<rparr>
   \<and> finalizedCount (JStr ''company'') (JNum 1)
        (processEvents cl0 initialState
           [evQuery ''query_generated'' ''company'' 1 ''acme revenue'',
            evQuery ''query_generated'' ''company'' 1 ''acme revenue'']) = 2"
  by (simp add: handler_defs concrete_defs
      finalizedCount_def evQuery_def)

text \<open>
  C2, amended: processing \<open>query_generated\<close> for an identity leaves its key absent from
  the streaming map and appends one record for it at the end of the finalized sequence,
  so the number of finalized records of that identity grows by exactly one; the same
  holds after a \<open>query_generating\<close>/\<open>query_generated\<close> pair for the identity.
\<close>

theorem C2_generated_moves_query:
  "map_of (streamingQueries (onmessage cl s (d\<lparr> data_type := JStr ''query_generated'' \<rparr>)))
     (queryKey d) = None
   \<and> queries (onmessage cl s (d\<lparr> data_type := JStr ''query_generated'' \<rparr>))
      = queries s @ [\<lparr> q_text = data_query d, q_number = data_query_number d,
                        q_category = data_category d \<rparr>]
   \<and> finalizedCount (data_category d) (data_query_number d)
        (onmessage cl s (d\<lparr> data_type := JStr ''query_generated'' \<rparr>))
      = finalizedCount (data_category d) (data_query_number d) s + 1
   \<and> map_of (streamingQueries (processEvents cl s
        [d\<lparr> data_type := JStr ''query_generating'', data_query := partial \<rparr>,
         d\<lparr> data_type := JStr ''query_generated'' \<rparr>])) (queryKey d) = None
   \<and> finalizedCount (data_category d) (data_query_number d)
        (processEvents cl s
           [d\<lparr> data_type := JStr ''query_generating'', data_query := partial \<rparr>,
            d\<lparr> data_type := JStr ''query_generated'' \<rparr>])
      = finalizedCount (data_category d) (data_query_number d) s + 1"
  by (simp add: handler_defs processEvents_def finalizedCount_def map_of_delete_same)

subsection \<open>Reset\<close>






subsection \<open>Enrichment counters\<close>

text \<open>
  C4, as stated: an \<open>enrichment\<close> message for a category without a counter leaves the
  counters unchanged. On the code, once a curation of another category has created the
  counters object, the message creates the missing entry.
\<close>

theorem C4_enrichment_creates_entry:
  "counterOf ''news'' (processEvents cl0 initialState [evCuration ''company'' 3]) = None
   \<and> counterOf ''news'' (processEvents cl0 initialState
        [evCuration ''company'' 3, evEnrichment ''news'' 4])
      = Some \<lparr> c_total = JNum 0, c_enriched = JNum 4 \<rparr>
   \<and> enrichmentCounts (processEvents cl0 initialState
        [evCuration ''company'' 3, evEnrichment ''news'' 4])
      \<noteq> enrichmentCounts (processEvents cl0 initialState [evCuration ''company'' 3])"
  by (simp add: handler_defs concrete_defs
      counterOf_def evCuration_def evEnrichment_def)

text \<open>
  C4, amended: an \<open>enrichment\<close> message that carries a category and an enriched count,
  in a state with no counter for that category, leaves the counters undefined when they
  are undefined (no curation yet); when the counters object exists, it creates the
  entry with the message's total (0 if absent or falsy) and the message's enriched count.
\<close>

theorem C4_enrichment_without_counter:
  assumes "data_type d = JStr ''enrichment''"
    and "truthy (data_category d)"
    and "data_enriched d \<noteq> JUndefined"
    and "counterOf (toString (data_category d)) s = None"
  shows "if enrichmentCounts s = None
         then enrichmentCounts (onmessage cl s d) = None
         else counterOf (toString (data_category d)) (onmessage cl s d)
              = Some \<lparr> c_total = js_or (data_total d) (JNum 0),
                       c_enriched = data_enriched d \<rparr>"
  using assms
  by (auto simp add: onmessage_def onEnrichment_def setStatus_def Let_def counterOf_def
      js_or_def map_of_update_same)

theorem C4_enrichment_without_counter_witness:
  "enrichmentCounts (onmessage cl0 initialState (evEnrichment ''news'' 4)) = None
   \<and> counterOf ''news''
        (onmessage cl0 (processEvents cl0 initialState [evCuration ''company'' 3])
           (evEnrichment ''news'' 4))
      = Some \<lparr> c_total = JNum 0, c_enriched = JNum 4 \<rparr>"
proof -
  let ?e = "evEnrichment ''news'' 4"
  let ?s = "processEvents cl0 initialState [evCuration ''company'' 3]"
  have ty: "data_type ?e = JStr ''enrichment''"
    and cat: "truthy (data_category ?e)"
    and enr: "data_enriched ?e \<noteq> JUndefined"
    by (simp_all add: concrete_defs
      counterOf_def evCuration_def evEnrichment_def)
  have none0: "counterOf (toString (data_category ?e)) initialState = None"
    by (simp add: concrete_defs
      counterOf_def evCuration_def evEnrichment_def)
  have none1: "counterOf (toString (data_category ?e)) ?s = None"
    by (simp add: handler_defs concrete_defs
      counterOf_def evCuration_def evEnrichment_def)
  have some1: "enrichmentCounts ?s \<noteq> None"
    by (simp add: handler_defs concrete_defs
      counterOf_def evCuration_def evEnrichment_def)
  from C4_enrichment_without_counter [OF ty cat enr none0, of cl0]
  have a: "enrichmentCounts (onmessage cl0 initialState ?e) = None"
    by (simp add: initialState_def)
  from C4_enrichment_without_counter [OF ty cat enr none1, of cl0] some1
  have b: "counterOf ''news'' (onmessage cl0 ?s ?e)
           = Some \<lparr> c_total = JNum 0, c_enriched = JNum 4 \<rparr>"
    by (simp add: evEnrichment_def ev_def no_fields_def js_or_def)
  from a b show ?thesis by simp
qed

text \<open>
  C5: a \<open>curation\<close> message that carries a category sets the counter of that category
  to the message's total (0 if absent) with enriched 0, whatever the counter was; a
  counter with total 5 and enriched 3 followed by a curation with total 7 becomes total
  7 and enriched 0.
\<close>

theorem C5_curation_resets_counter:
  assumes "data_type d = JStr ''curation''"
    and "truthy (data_category d)"
    and "data_total d = JUndefined \<or> data_total d = JNum n"
  shows "counterOf (toString (data_category d)) (onmessage cl s d)
         = Some \<lparr> c_total = (if data_total d = JUndefined then JNum 0 else JNum n),
                  c_enriched = JNum 0 \<rparr>"
  using assms
  by (auto simp add: onmessage_def onCuration_def setStatus_def setTimeout_def
      scrollToStatus_def Let_def counterOf_def js_or_def map_of_update_same)

theorem C5_curation_resets_counter_witness:
  "counterOf ''news'' (processEvents cl0 initialState
       [evCuration ''news'' 5, evEnrichment ''news'' 3])
     = Some \<lparr> c_total = JNum 5, c_enriched = JNum 3 \<rparr>
   \<and> counterOf ''news''
        (onmessage cl0
           (processEvents cl0 initialState [evCuration ''news'' 5, evEnrichment ''news'' 3])
           (evCuration ''news'' 7))
      = Some \<lparr> c_total = JNum 7, c_enriched = JNum 0 \<rparr>"
proof -
  let ?e = "evCuration ''news'' 7"
  have ty: "data_type ?e = JStr ''curation''"
    and cat: "truthy (data_category ?e)"
    and tot: "data_total ?e = JUndefined \<or> data_total ?e = JNum 7"
    by (simp_all add: concrete_defs
      counterOf_def evCuration_def evEnrichment_def)
  have before: "counterOf ''news'' (processEvents cl0 initialState
       [evCuration ''news'' 5, evEnrichment ''news'' 3])
     = Some \<lparr> c_total = JNum 5, c_enriched = JNum 3 \<rparr>"
    by (simp add: handler_defs concrete_defs
      counterOf_def evCuration_def evEnrichment_def)
  from C5_curation_resets_counter [OF ty cat tot]
  have after: "counterOf ''news'' (onmessage cl0 s ?e)
         = Some \<lparr> c_total = JNum 7, c_enriched = JNum 0 \<rparr>" for s
    by (simp add: evCuration_def ev_def no_fields_def)
  from before after show ?thesis by simp
qed

text \<open>
  C7, as stated: an \<open>enrichment\<close> message never lowers the enriched count of a
  category that has a counter. On the code, a counter with enriched 3 that receives an
  enrichment message with enriched 1 has enriched 1 afterwards.
\<close>

theorem C7_enriched_decreases:
  "counterOf ''news'' (processEvents cl0 initialState
       [evCuration ''news'' 5, evEnrichment ''news'' 3])
     = Some \<lparr> c_total = JNum 5, c_enriched = JNum 3 \<rparr>
   \<and> counterOf ''news'' (processEvents cl0 initialState
        [evCuration ''news'' 5, evEnrichment ''news'' 3, evEnrichment ''news'' 1])
      = Some \<lparr> c_total = JNum 5, c_enriched = JNum 1 \<rparr>
   \<and> \<not> ((3::int) \<le> 1)"
  by (simp add: handler_defs concrete_defs
      counterOf_def evCuration_def evEnrichment_def)

text \<open>
  C7, amended: for an \<open>enrichment\<close> message that carries a category and an enriched
  count, applied to a state that has a counter for the category, the enriched value after
  the update is the message's enriched value, whether it is above or below the value
  before; the total is kept when it is truthy, else replaced by the message's total or 0.
\<close>

theorem C7_enriched_is_overwritten:
  assumes "data_type d = JStr ''enrichment''"
    and "truthy (data_category d)"
    and "data_enriched d \<noteq> JUndefined"
    and "counterOf (toString (data_category d)) s = Some c"
  shows "counterOf (toString (data_category d)) (onmessage cl s d)
         = Some \<lparr> c_total = js_or (js_or (c_total c) (data_total d)) (JNum 0),
                  c_enriched = data_enriched d \<rparr>"
  using assms
  by (auto simp add: onmessage_def onEnrichment_def setStatus_def Let_def counterOf_def
      js_or_def map_of_update_same split: option.splits)

theorem C7_enriched_is_overwritten_witness:
  "counterOf ''news''
     (onmessage cl0
        (processEvents cl0 initialState [evCuration ''news'' 5, evEnrichment ''news'' 3])
        (evEnrichment ''news'' 1))
   = Some \<lparr> c_total = JNum 5, c_enriched = JNum 1 \<rparr>"
proof -
  let ?e = "evEnrichment ''news'' 1"
  let ?s = "processEvents cl0 initialState [evCuration ''news'' 5, evEnrichment ''news'' 3]"
  have ty: "data_type ?e = JStr ''enrichment''"
    and cat: "truthy (data_category ?e)"
    and enr: "data_enriched ?e \<noteq> JUndefined"
    by (simp_all add: concrete_defs
      counterOf_def evCuration_def evEnrichment_def)
  have before: "counterOf (toString (data_category ?e)) ?s
                = Some \<lparr> c_total = JNum 5, c_enriched = JNum 3 \<rparr>"
    by (simp add: handler_defs concrete_defs
      counterOf_def evCuration_def evEnrichment_def)
  from C7_enriched_is_overwritten [OF ty cat enr before, of cl0]
  show ?thesis
    by (simp add: evEnrichment_def ev_def no_fields_def js_or_def)
qed

subsection \<open>Report buffer\<close>

lemma currentReport_chunk:
  assumes "currentReport s = JStr b"
  shows "currentReport (onmessage cl s (evReportChunk c)) = JStr (b @ c)"
  using assms
  by (auto simp add: onmessage_def onReportChunk_def setStatus_def Let_def currentReport_def
      js_or_def js_add_def evReportChunk_def ev_def no_fields_def split: if_splits)

lemma currentReport_chunks:
  "currentReport s = JStr b \<Longrightarrow>
   currentReport (processEvents cl s (map evReportChunk cs)) = JStr (b @ concat cs)"
proof (induction cs arbitrary: s b)
  case Nil
  then show ?case by (simp add: processEvents_def)
next
  case (Cons c cs)
  from currentReport_chunk [OF Cons.prems]
  have step: "currentReport (onmessage cl s (evReportChunk c)) = JStr (b @ c)" .
  from Cons.IH [OF step] show ?case by (simp add: processEvents_def)
qed

lemma currentReport_complete:
  "r \<noteq> [] \<Longrightarrow> currentReport (onmessage cl s (evComplete r)) = JStr r"
  by (simp add: onmessage_def onComplete_def setStatus_def closeEventSource_def Let_def
      currentReport_def js_or_def evComplete_def ev_def no_fields_def)

text \<open>
  C6, as stated: a \<open>complete\<close> message after the chunks replaces the report buffer with
  its report text. On the code a \<open>complete\<close> message whose report is the empty string
  is skipped, and the text assembled from the chunks stays in the buffer.
\<close>

theorem C6_empty_complete_keeps_chunks:
  "currentReport (processEvents cl0 initialState [evReportChunk ''Hello '', evComplete []])
     = JStr ''Hello ''
   \<and> currentReport (processEvents cl0 initialState [evReportChunk ''Hello '', evComplete []])
     \<noteq> JStr []"
  by (simp add: handler_defs concrete_defs evReportChunk_def evComplete_def)

text \<open>
  C6, amended: \<open>report_chunk\<close> messages append their chunks to the report buffer in
  arrival order, and a following \<open>complete\<close> message with a non-empty report replaces
  the buffer with its report text; the chunks "Hello " and "world" followed by
  \<open>complete\<close> with report "FINAL" leave exactly "FINAL".
\<close>

theorem C6_chunks_append_complete_replaces:
  assumes "currentReport s = JStr b" and "r \<noteq> []"
  shows "currentReport (processEvents cl s (map evReportChunk cs)) = JStr (b @ concat cs)
         \<and> currentReport (processEvents cl s (map evReportChunk cs @ [evComplete r])) = JStr r"
proof -
  have "currentReport (processEvents cl s (map evReportChunk cs @ [evComplete r])) = JStr r"
    using assms(2) by (simp add: processEvents_def currentReport_complete)
  with currentReport_chunks [OF assms(1)] show ?thesis by simp
qed

theorem C6_chunks_append_complete_replaces_witness:
  "currentReport (processEvents cl0 initialState
       [evReportChunk ''Hello '', evReportChunk ''world'']) = JStr ''Hello world''
   \<and> currentReport (processEvents cl0 initialState
       [evReportChunk ''Hello '', evReportChunk ''world'', evComplete ''FINAL''])
     = JStr ''FINAL''"
proof -
  have start: "currentReport initialState = JStr []"
    by (simp add: currentReport_def initialState_def js_or_def)
  have final: "''FINAL'' \<noteq> []" by simp
  from C6_chunks_append_complete_replaces [OF start final, where cs = "[''Hello '', ''world'']" and cl = cl0]
  show ?thesis by simp
qed

subsection \<open>Briefings\<close>

text \<open>
  The keys of \<^verbatim>\<open>briefingStatus\<close> stay pairwise distinct, as the own properties of an
  object are.
\<close>

lemma briefingStatus_distinct_initial: "distinct (map fst (briefingStatus initialState))"
  by (simp add: initialState_def initialBriefingStatus_def)

lemma briefingStatus_distinct_onmessage:
  "distinct (map fst (briefingStatus s)) \<Longrightarrow>
   distinct (map fst (briefingStatus (onmessage cl s d)))"
  by (simp add: handler_defs distinct_update)

lemma briefingStatus_distinct_processEvents:
  "distinct (map fst (briefingStatus s)) \<Longrightarrow>
   distinct (map fst (briefingStatus (processEvents cl s ds)))"
proof (induction ds arbitrary: s)
  case Nil
  then show ?case by (simp add: processEvents_def)
next
  case (Cons d ds)
  from Cons.IH [OF briefingStatus_distinct_onmessage [OF Cons.prems]]
  show ?case by (simp add: processEvents_def)
qed

text \<open>
  C8, as stated: the collapse of the briefing section is scheduled exactly once, and a
  \<open>briefing_complete\<close> message for a category that is already true does not schedule
  it again. On the code, after the four categories have completed, a second
  \<open>briefing_complete\<close> for \<open>news\<close> schedules the collapse a second time.
\<close>

theorem C8_collapse_scheduled_twice:
  "collapseBriefingScheduled (processEvents cl0 initialState
      [evBriefingComplete ''company'', evBriefingComplete ''industry'',
       evBriefingComplete ''financial'', evBriefingComplete ''news'']) = 1
   \<and> collapseBriefingScheduled (processEvents cl0 initialState
      [evBriefingComplete ''company'', evBriefingComplete ''industry'',
       evBriefingComplete ''financial'', evBriefingComplete ''news'',
       evBriefingComplete ''news'']) = 2"
  by (simp add: handler_defs concrete_defs
      collapseBriefingScheduled_def evBriefingComplete_def)

text \<open>
  C8, amended: a \<open>briefing_complete\<close> message that carries a category schedules the
  collapse of the briefing section exactly when every briefing flag other than that of
  its own category is already true. It is therefore scheduled at the moment the four
  categories first become all true, and once more by every later \<open>briefing_complete\<close>
  message.
\<close>

theorem C8_collapse_scheduled_when_all_true:
  assumes "data_type d = JStr ''briefing_complete''"
    and "truthy (data_category d)"
    and "distinct (map fst (briefingStatus s))"
  shows "collapseBriefingScheduled (onmessage cl s d)
         = collapseBriefingScheduled s
           + (if list_all (\<lambda>kv. fst kv = toString (data_category d) \<or> snd kv)
                   (briefingStatus s)
              then 1 else 0)"
  using assms
  by (simp add: onmessage_def onBriefingComplete_def briefingUpdater_def setStatus_def
      setTimeout_def Let_def collapseBriefingScheduled_def list_all_update_True)

theorem C8_collapse_scheduled_when_all_true_witness:
  "collapseBriefingScheduled
     (onmessage cl0
        (processEvents cl0 initialState
           [evBriefingComplete ''company'', evBriefingComplete ''industry'',
            evBriefingComplete ''financial'', evBriefingComplete ''news''])
        (evBriefingComplete ''news'')) = 2"
proof -
  let ?e = "evBriefingComplete ''news''"
  let ?s = "processEvents cl0 initialState
           [evBriefingComplete ''company'', evBriefingComplete ''industry'',
            evBriefingComplete ''financial'', evBriefingComplete ''news'']"
  have ty: "data_type ?e = JStr ''briefing_complete''"
    and cat: "truthy (data_category ?e)"
    by (simp_all add: concrete_defs
      collapseBriefingScheduled_def evBriefingComplete_def)
  have flags: "briefingStatus ?s
      = [(''company'', True), (''industry'', True), (''financial'', True), (''news'', True)]"
    by (simp add: handler_defs concrete_defs
      collapseBriefingScheduled_def evBriefingComplete_def)
  have dist: "distinct (map fst (briefingStatus ?s))"
    by (simp add: flags)
  have once: "collapseBriefingScheduled ?s = 1"
    by (simp add: handler_defs concrete_defs
      collapseBriefingScheduled_def evBriefingComplete_def)
  from C8_collapse_scheduled_when_all_true [OF ty cat dist, of cl0]
  show ?thesis by (simp add: once flags)
qed

subsection \<open>Messages that match no branch\<close>

text \<open>
  C9, as stated: a message of an unrecognized kind results in a display step equal to
  the raw identifier. On the code the status is not written at all: from the initial
  state it stays null.
\<close>

theorem C9_unknown_kind_sets_no_status:
  "status (onmessage cl0 initialState (ev ''heartbeat'')) = None
   \<and> map_option step (status (onmessage cl0 initialState (ev ''heartbeat'')))
      \<noteq> Some (Own (JStr ''heartbeat''))"
  by (simp add: handler_defs concrete_defs
      recognizedKinds_def)

text \<open>
  C9, amended: a message whose kind is not one of the recognized kinds leaves the whole
  state unchanged, the status and the phase included; it is accepted and no error is
  recorded. The raw identifier becomes the display step only for a \<open>progress\<close> message
  whose step is neither a key of the label table nor a member inherited from
  \<^verbatim>\<open>Object.prototype\<close>, and such a message leaves the phase unchanged.
\<close>

theorem C9_unknown_kind_ignored:
  assumes "data_type d \<notin> set (map JStr recognizedKinds)"
    and "data_type p = JStr ''progress''"
    and "truthy (data_step p)"
    and "map_of stepMap (toString (data_step p)) = None"
    and "toString (data_step p) \<notin> set objectPrototypeNames"
  shows "onmessage cl s d = s
         \<and> map_option step (status (onmessage cl s p)) = Some (Own (data_step p))
         \<and> currentPhase (onmessage cl s p) = currentPhase s"
proof -
  from assms(1) have "onmessage cl s d = s"
    by (simp add: onmessage_def recognizedKinds_def)
  moreover from assms(2-5)
  have "map_option step (status (onmessage cl s p)) = Some (Own (data_step p))"
    by (simp add: onmessage_def onProgress_def setStatus_def scrollToStatus_def
        getStepName_def Let_def)
  moreover from assms(2-4)
  have "currentPhase (onmessage cl s p) = currentPhase s"
    by (auto simp add: onmessage_def onProgress_def setStatus_def scrollToStatus_def
        Let_def stepMap_def)
  ultimately show ?thesis by simp
qed

theorem C9_unknown_kind_ignored_witness:
  "onmessage cl0 initialState (ev ''heartbeat'') = initialState
   \<and> map_option step (status (onmessage cl0 initialState
        ((ev ''progress'')\<lparr> data_step := JStr ''planner'' \<rparr>)))
      = Some (Own (JStr ''planner''))
   \<and> currentPhase (onmessage cl0 initialState
        ((ev ''progress'')\<lparr> data_step := JStr ''planner'' \<rparr>)) = None"
proof -
  let ?d = "ev ''heartbeat''"
  let ?p = "(ev ''progress'')\<lparr> data_step := JStr ''planner'' \<rparr>"
  have unknown: "data_type ?d \<notin> set (map JStr recognizedKinds)"
    by (simp add: concrete_defs
      recognizedKinds_def)
  have ty: "data_type ?p = JStr ''progress''"
    and st: "truthy (data_step ?p)"
    and unmapped: "map_of stepMap (toString (data_step ?p)) = None"
    and own: "toString (data_step ?p) \<notin> set objectPrototypeNames"
    by (simp_all add: concrete_defs
      recognizedKinds_def)
  from C9_unknown_kind_ignored [OF unknown ty st unmapped own, of cl0 initialState]
  show ?thesis by (simp add: ev_def no_fields_def initialState_def)
qed

text \<open>
  C10: a \<open>complete\<close> message whose report is absent or the empty string changes no
  state: report buffer, phase, status and completion flag stay as they are, the job is
  not marked complete and the stream stays open.
\<close>

theorem C10_complete_without_report_ignored:
  assumes "data_type d = JStr ''complete''"
    and "data_report d = JUndefined \<or> data_report d = JStr []"
  shows "onmessage cl s d = s"
  using assms by (auto simp add: onmessage_def)

theorem C10_complete_without_report_ignored_witness:
  "onmessage cl0 (streamResults initialState) (ev ''complete'') = streamResults initialState
   \<and> onmessage cl0 (streamResults initialState) (evComplete []) = streamResults initialState
   \<and> eventSourceRef (onmessage cl0 (streamResults initialState) (evComplete [])) = Some OPEN
   \<and> isComplete (onmessage cl0 (streamResults initialState) (evComplete [])) = False"
proof -
  have ty1: "data_type (ev ''complete'') = JStr ''complete''"
    and rep1: "data_report (ev ''complete'') = JUndefined
               \<or> data_report (ev ''complete'') = JStr []"
    and ty2: "data_type (evComplete []) = JStr ''complete''"
    and rep2: "data_report (evComplete []) = JUndefined \<or> data_report (evComplete []) = JStr []"
    by (simp_all add: concrete_defs
      evComplete_def)
  from C10_complete_without_report_ignored [OF ty1 rep1, of cl0 "streamResults initialState"]
    C10_complete_without_report_ignored [OF ty2 rep2, of cl0 "streamResults initialState"]
  show ?thesis by (simp add: streamResults_def initialState_def)
qed

end
